theory Spec2Isabelle
  imports Main "HOL-Library.Char_ord" "HOL-Library.List_Lexorder" "HOL-Library.Sublist"
begin

section \<open>Data model (lib/types.ts)\<close>

text \<open>
  The interfaces of \<^verbatim>\<open>lib/types.ts\<close> as records and the string unions as datatypes.
  A \<^verbatim>\<open>BotInfo\<close> object is identified with its value: the competitors of a match are
  entries of the manifest, and \<^verbatim>\<open>===\<close> on two of them is modelled by equality of
  the records.
\<close>

record BotInfo =
  username :: string
  avatar :: string
  forkUrl :: string

datatype PlayerType = TypeBot | TypeHuman

record PlayerInfo =
  ptype :: PlayerType
  bot :: "BotInfo option"

definition HUMAN_PLAYER :: PlayerInfo where
  "HUMAN_PLAYER = \<lparr>ptype = TypeHuman, bot = None\<rparr>"

datatype GameStatus = Idle | WaitingHuman | Running | Paused | Finished

text \<open>\<^verbatim>\<open>'w' | 'b'\<close>\<close>

datatype color = W | B

datatype forfeit_reason = Invalid | Timeout

text \<open>The union \<^verbatim>\<open>GameResult\<close>; its member \<^verbatim>\<open>null\<close> is \<open>NoResult\<close>.\<close>

datatype GameResult =
    Checkmate color
  | Stalemate
  | DrawRepetition
  | DrawInsufficient
  | Draw50Move
  | Forfeit color forfeit_reason
  | NoResult

text \<open>
  \<^verbatim>\<open>MoveRecord\<close>; its field \<^verbatim>\<open>fen\<close> is \<open>fenAfter\<close> here, since \<open>fen\<close> names the
  field of \<^verbatim>\<open>GameState\<close>. Times are whole milliseconds.
\<close>

record MoveRecord =
  moveNumber :: nat
  san :: string
  uci :: string
  fenAfter :: string
  color :: color
  timeMs :: nat

record GameState =
  status :: GameStatus
  result :: GameResult
  fen :: string
  moves :: "MoveRecord list"
  currentTurn :: color
  whitePlayer :: "PlayerInfo option"
  blackPlayer :: "PlayerInfo option"
  lastMoveTimeMs :: nat
  timeLimitMs :: nat

datatype GameWinReason =
    ByCheckmate
  | ByStalemate
  | ByTimeout
  | ByInvalidMove
  | ByDrawRepetition
  | ByDrawInsufficient
  | ByDraw50Move
  | ByForfeit
  | ByTimeAdvantage

record MatchResult =
  winner :: BotInfo
  loser :: BotInfo
  reason :: GameWinReason

section \<open>Match controller: \<^verbatim>\<open>playBotMatch\<close> (App.tsx)\<close>

definition getWinnerColor :: "GameResult \<Rightarrow> color option" where
  "getWinnerColor r =
     (case r of
        NoResult \<Rightarrow> None
      | Checkmate w \<Rightarrow> Some w
      | Forfeit l _ \<Rightarrow> Some (if l = W then B else W)
      | _ \<Rightarrow> None)"

definition getGameWinReason :: "GameResult \<Rightarrow> GameWinReason" where
  "getGameWinReason r =
     (case r of
        NoResult \<Rightarrow> ByDraw50Move
      | Checkmate _ \<Rightarrow> ByCheckmate
      | Stalemate \<Rightarrow> ByStalemate
      | DrawRepetition \<Rightarrow> ByDrawRepetition
      | DrawInsufficient \<Rightarrow> ByDrawInsufficient
      | Draw50Move \<Rightarrow> ByDraw50Move
      | Forfeit _ rs \<Rightarrow> (if rs = Timeout then ByTimeout else ByInvalidMove))"

text \<open>
  What one turn of the loop gets from the engine: \<^verbatim>\<open>loadPlayers\<close> rejects
  (\<open>LoadError\<close>), or the game is played and \<^verbatim>\<open>getState()\<close> gives the state it
  ended in. The match controller sees the engine only through this, so the model
  takes the engine's answer for game \<open>n\<close> as a function of \<open>n\<close>.
\<close>

datatype engine_run = LoadError | Ended GameState

type_synonym engine_runs = "nat \<Rightarrow> engine_run"

text \<open>The exceptions \<^verbatim>\<open>playBotMatch\<close> can leave with.\<close>

datatype match_error = EngineNotReady | LoadFailed | MatchAborted | NoMatchWinner

text \<open>
  The local variables of \<^verbatim>\<open>playBotMatch\<close>, and \<open>played\<close>: the calls of
  \<^verbatim>\<open>loadPlayers(white, black)\<close> so far, one per game started.
\<close>

record match_vars =
  whiteBotWins :: nat
  blackBotWins :: nat
  game2Winner :: "BotInfo option"
  game2Loser :: "BotInfo option"
  gameResults :: "MatchResult list"
  played :: "(BotInfo \<times> BotInfo) list"

text \<open>
  The object \<^verbatim>\<open>{ winner, loser, gameResults }\<close> the function returns, with the games
  that were started.
\<close>

record match_return =
  matchWinner :: BotInfo
  matchLoser :: BotInfo
  matchGames :: "MatchResult list"
  matchPlayed :: "(BotInfo \<times> BotInfo) list"

datatype game_step = Return match_return | Continue match_vars | Throw match_error

definition returning :: "BotInfo \<Rightarrow> BotInfo \<Rightarrow> match_vars \<Rightarrow> game_step" where
  "returning w l v =
     Return \<lparr>matchWinner = w, matchLoser = l, matchGames = gameResults v, matchPlayed = played v\<rparr>"

definition pushResult :: "BotInfo \<Rightarrow> BotInfo \<Rightarrow> GameWinReason \<Rightarrow> match_vars \<Rightarrow> match_vars" where
  "pushResult w l rs v = v\<lparr>gameResults := gameResults v @ [\<lparr>winner = w, loser = l, reason = rs\<rparr>]\<rparr>"

text \<open>The colours of game \<open>gameNumber\<close>: \<open>(currentWhiteBot, currentBlackBot)\<close>.\<close>

definition currentBots :: "BotInfo \<Rightarrow> BotInfo \<Rightarrow> nat \<Rightarrow> match_vars \<Rightarrow> BotInfo \<times> BotInfo" where
  "currentBots whiteBot blackBot gameNumber v =
     (if gameNumber \<le> 2 then (whiteBot, blackBot)
      else if game2Winner v = Some whiteBot then (blackBot, whiteBot)
      else (whiteBot, blackBot))"

text \<open>The body of \<^verbatim>\<open>while (gameNumber <= 3)\<close>, up to \<^verbatim>\<open>gameNumber++\<close>.\<close>

definition playGame ::
  "engine_runs \<Rightarrow> BotInfo \<Rightarrow> BotInfo \<Rightarrow> nat \<Rightarrow> match_vars \<Rightarrow> game_step" where
  "playGame eng whiteBot blackBot gameNumber v0 =
     (let currentWhiteBot = fst (currentBots whiteBot blackBot gameNumber v0);
          currentBlackBot = snd (currentBots whiteBot blackBot gameNumber v0);
          v = v0\<lparr>played := played v0 @ [(currentWhiteBot, currentBlackBot)]\<rparr>
      in case eng gameNumber of
           LoadError \<Rightarrow> Throw LoadFailed
         | Ended st \<Rightarrow>
             if status st \<noteq> Finished then Throw MatchAborted
             else
               let winnerColor = getWinnerColor (result st);
                   rs = getGameWinReason (result st)
               in
                 if gameNumber = 1 then
                   (if winnerColor = Some W then
                      (let v1 = pushResult whiteBot blackBot rs (v\<lparr>whiteBotWins := whiteBotWins v + 1\<rparr>)
                       in if whiteBotWins v1 = 2 then returning whiteBot blackBot v1 else Continue v1)
                    else if winnerColor = Some B then
                      (let v1 = pushResult blackBot whiteBot rs (v\<lparr>blackBotWins := blackBotWins v + 1\<rparr>)
                       in if blackBotWins v1 = 2 then returning blackBot whiteBot v1 else Continue v1)
                    else Continue v)
                 else if gameNumber = 2 then
                   (if winnerColor = Some W then
                      (let v1 = pushResult whiteBot blackBot rs
                                  (v\<lparr>whiteBotWins := whiteBotWins v + 1,
                                     game2Winner := Some whiteBot, game2Loser := Some blackBot\<rparr>)
                       in if whiteBotWins v1 = 2 then returning whiteBot blackBot v1 else Continue v1)
                    else if winnerColor = Some B then
                      (let v1 = pushResult blackBot whiteBot rs
                                  (v\<lparr>blackBotWins := blackBotWins v + 1,
                                     game2Winner := Some blackBot, game2Loser := Some whiteBot\<rparr>)
                       in if blackBotWins v1 = 2 then returning blackBot whiteBot v1 else Continue v1)
                    else Continue v)
                 else if gameNumber = 3 then
                   (if winnerColor = Some W then
                      returning currentWhiteBot currentBlackBot
                        (pushResult currentWhiteBot currentBlackBot rs v)
                    else if winnerColor = Some B then
                      returning currentBlackBot currentWhiteBot
                        (pushResult currentBlackBot currentWhiteBot rs v)
                    else
                      (let v1 = pushResult
                                  (case game2Winner v of Some w \<Rightarrow> w | None \<Rightarrow> whiteBot)
                                  (case game2Loser v of Some l \<Rightarrow> l | None \<Rightarrow> blackBot) rs v
                       in if game2Winner v = Some whiteBot then returning whiteBot blackBot v1
                          else returning blackBot whiteBot v1))
                 else Continue v)"

text \<open>
  The loop itself; leaving it without a \<^verbatim>\<open>return\<close> is the
  \<^verbatim>\<open>'Best-of-3 match completed without winner'\<close> error.
\<close>

function matchLoop ::
  "engine_runs \<Rightarrow> BotInfo \<Rightarrow> BotInfo \<Rightarrow> nat \<Rightarrow> match_vars \<Rightarrow> match_error + match_return" where
  "matchLoop eng whiteBot blackBot gameNumber v =
     (if gameNumber \<le> 3 then
        (case playGame eng whiteBot blackBot gameNumber v of
           Return r \<Rightarrow> Inr r
         | Throw e \<Rightarrow> Inl e
         | Continue v' \<Rightarrow> matchLoop eng whiteBot blackBot (gameNumber + 1) v')
      else Inl NoMatchWinner)"
  by pat_completeness auto
termination
  by (relation "measure (\<lambda>(eng, whiteBot, blackBot, gameNumber, v). 4 - gameNumber)") auto

declare matchLoop.simps [simp del]

text \<open>
  \<^verbatim>\<open>playBotMatch(whiteBot, blackBot)\<close>. The engine reference is \<open>None\<close> when
  \<^verbatim>\<open>engineRef.current\<close> is null. Setting and restoring the engine's time limit
  around the loop does not reach the result and is left out.
\<close>

definition playBotMatch ::
  "engine_runs option \<Rightarrow> BotInfo \<Rightarrow> BotInfo \<Rightarrow> match_error + match_return" where
  "playBotMatch engineRef whiteBot blackBot =
     (case engineRef of
        None \<Rightarrow> Inl EngineNotReady
      | Some eng \<Rightarrow>
          matchLoop eng whiteBot blackBot 1
            \<lparr>whiteBotWins = 0, blackBotWins = 0, game2Winner = None, game2Loser = None,
             gameResults = [], played = []\<rparr>)"

subsection \<open>Reading the games of a match\<close>

text \<open>
  Game \<open>n\<close> was played to the end; the colour that won it (\<open>None\<close> for a draw);
  the reason recorded for it.
\<close>

definition finishedGame :: "engine_runs \<Rightarrow> nat \<Rightarrow> bool" where
  "finishedGame eng n = (case eng n of Ended st \<Rightarrow> status st = Finished | LoadError \<Rightarrow> False)"

definition winnerColorOf :: "engine_runs \<Rightarrow> nat \<Rightarrow> color option" where
  "winnerColorOf eng n =
     (case eng n of Ended st \<Rightarrow> getWinnerColor (result st) | LoadError \<Rightarrow> None)"

definition reasonOf :: "engine_runs \<Rightarrow> nat \<Rightarrow> GameWinReason" where
  "reasonOf eng n =
     (case eng n of Ended st \<Rightarrow> getGameWinReason (result st) | LoadError \<Rightarrow> ByForfeit)"

text \<open>One colour won both game 1 and game 2.\<close>

definition decidedAfterTwo :: "engine_runs \<Rightarrow> bool" where
  "decidedAfterTwo eng =
     (winnerColorOf eng 1 \<noteq> None \<and> winnerColorOf eng 1 = winnerColorOf eng 2)"

text \<open>Games 1 and 2 were won by different colours: the series stands at 1-1.\<close>

definition splitAfterTwo :: "engine_runs \<Rightarrow> bool" where
  "splitAfterTwo eng =
     (winnerColorOf eng 1 \<noteq> None \<and> winnerColorOf eng 2 \<noteq> None
      \<and> winnerColorOf eng 1 \<noteq> winnerColorOf eng 2)"

text \<open>The competitor seeded with colour \<open>c\<close> in games 1 and 2, and the other colour.\<close>

definition seeded :: "BotInfo \<Rightarrow> BotInfo \<Rightarrow> color \<Rightarrow> BotInfo" where
  "seeded whiteBot blackBot c = (if c = W then whiteBot else blackBot)"

definition opponent :: "color \<Rightarrow> color" where
  "opponent c = (if c = W then B else W)"

subsection \<open>Concrete matches\<close>

definition botA :: BotInfo where
  "botA = \<lparr>username = ''alice'', avatar = ''a.png'', forkUrl = ''forks/alice''\<rparr>"

definition botB :: BotInfo where
  "botB = \<lparr>username = ''bob'', avatar = ''b.png'', forkUrl = ''forks/bob''\<rparr>"

text \<open>A finished game with result \<open>r\<close>, and the engine that ends game \<open>n\<close> with \<open>rs ! (n - 1)\<close>.\<close>

definition endedWith :: "GameResult \<Rightarrow> engine_run" where
  "endedWith r =
     Ended \<lparr>status = Finished, result = r, fen = [], moves = [], currentTurn = W,
            whitePlayer = None, blackPlayer = None, lastMoveTimeMs = 0, timeLimitMs = 10000\<rparr>"

definition runs :: "GameResult list \<Rightarrow> engine_runs" where
  "runs rs n = (if 1 \<le> n \<and> n \<le> length rs then endedWith (rs ! (n - 1)) else LoadError)"

section \<open>Tournament controller: head-to-head records (App.tsx, \<^verbatim>\<open>handleStartTournament\<close>)\<close>

text \<open>
  \<^verbatim>\<open>headToHead: Record<string, { wins: number; losses: number }>\<close>. Usernames are
  compared as \<^verbatim>\<open>Array.prototype.sort\<close> does without a comparator, code unit by code
  unit; the order on \<open>string\<close> used here is the lexicographic order on character codes.
\<close>

record h2h_entry =
  wins :: nat
  losses :: nat

type_synonym head_to_head = "string \<rightharpoonup> h2h_entry"

text \<open>\<^verbatim>\<open>names.join('-vs-')\<close>\<close>

fun joinWith :: "string \<Rightarrow> string list \<Rightarrow> string" where
  "joinWith sep [] = []"
| "joinWith sep [x] = x"
| "joinWith sep (x # y # ys) = x @ sep @ joinWith sep (y # ys)"

definition h2hNames :: "BotInfo \<Rightarrow> BotInfo \<Rightarrow> string list" where
  "h2hNames w l = sort [username w, username l]"

definition h2hKey :: "BotInfo \<Rightarrow> BotInfo \<Rightarrow> string" where
  "h2hKey w l = joinWith ''-vs-'' (h2hNames w l)"

definition trackHeadToHead :: "head_to_head \<Rightarrow> BotInfo \<Rightarrow> BotInfo \<Rightarrow> head_to_head" where
  "trackHeadToHead h w l =
     (let names = h2hNames w l;
          key = joinWith ''-vs-'' names;
          entry = (case h key of None \<Rightarrow> \<lparr>wins = 0, losses = 0\<rparr> | Some en \<Rightarrow> en)
      in if username w = names ! 0
         then h(key \<mapsto> entry\<lparr>wins := wins entry + 1\<rparr>)
         else h(key \<mapsto> entry\<lparr>losses := losses entry + 1\<rparr>))"

text \<open>
  The part of \<^verbatim>\<open>handleStartTournament\<close> that reaches the head-to-head map. Which
  pairs meet is decided by \<^verbatim>\<open>buildRound\<close> and \<^verbatim>\<open>shuffleBots\<close> of
  \<^verbatim>\<open>lib/tournament\<close>, which are not among the sources, so the pairings are a
  parameter: the matches with two competitors in the order they are played (byes call
  neither \<^verbatim>\<open>playBotMatch\<close> nor \<^verbatim>\<open>trackHeadToHead\<close>), the third-place match last,
  each with the engine's games for it. Every pairing is run as the loop body does:
  \<^verbatim>\<open>result = await playBotMatch(whiteBot, blackBot)\<close>, then
  \<^verbatim>\<open>trackHeadToHead(result.winner, result.loser)\<close>. An exception of
  \<^verbatim>\<open>playBotMatch\<close> ends the tournament (\<^verbatim>\<open>Tournament failed\<close>). The result is the
  head-to-head map with the matches played.
\<close>

fun playMatches ::
  "head_to_head \<Rightarrow> match_return list \<Rightarrow> (BotInfo \<times> BotInfo \<times> engine_runs) list
     \<Rightarrow> match_error + (head_to_head \<times> match_return list)" where
  "playMatches h done [] = Inr (h, done)"
| "playMatches h done ((whiteBot, blackBot, eng) # ms) =
     (case playBotMatch (Some eng) whiteBot blackBot of
        Inl e \<Rightarrow> Inl e
      | Inr r \<Rightarrow> playMatches (trackHeadToHead h (matchWinner r) (matchLoser r)) (done @ [r]) ms)"

text \<open>
  Reading a finished tournament: the sum \<open>wins + losses\<close> of the entry under a key, the
  matches recorded under the key, and the games played in them.
\<close>

definition entryTotal :: "head_to_head \<Rightarrow> string \<Rightarrow> nat" where
  "entryTotal h key = (case h key of None \<Rightarrow> 0 | Some en \<Rightarrow> wins en + losses en)"

definition matchesUnder :: "string \<Rightarrow> match_return list \<Rightarrow> match_return list" where
  "matchesUnder key rs = filter (\<lambda>r. h2hKey (matchWinner r) (matchLoser r) = key) rs"

definition gamesUnder :: "string \<Rightarrow> match_return list \<Rightarrow> nat" where
  "gamesUnder key rs = sum_list (map (\<lambda>r. length (matchPlayed r)) (matchesUnder key rs))"

section \<open>Game engine (lib/game-engine.ts)\<close>

subsection \<open>The rules oracle\<close>

text \<open>
  The engine consumes chess.js through the methods below. The library is not part of the
  repository, so it is a parameter: a position type \<open>'p\<close> (the state of a
  \<^verbatim>\<open>Chess\<close> object) and the methods as functions of it. \<^verbatim>\<open>chess.move\<close> mutates the
  object and returns a move with its \<^verbatim>\<open>san\<close> and \<^verbatim>\<open>color\<close>; on an illegal move it
  throws (or, in old versions, returns null). The engine provides for both.
\<close>

datatype 'p move_outcome = MoveThrows | MoveNull | Moved string color 'p

record 'p chess_js =
  newChess :: 'p
  chessFen :: "'p \<Rightarrow> string"
  chessTurn :: "'p \<Rightarrow> color"
  chessMove :: "'p \<Rightarrow> string \<Rightarrow> string \<Rightarrow> string option \<Rightarrow> 'p move_outcome"
  isGameOver :: "'p \<Rightarrow> bool"
  isCheckmate :: "'p \<Rightarrow> bool"
  isStalemate :: "'p \<Rightarrow> bool"
  isThreefoldRepetition :: "'p \<Rightarrow> bool"
  isInsufficientMaterial :: "'p \<Rightarrow> bool"
  isDraw :: "'p \<Rightarrow> bool"

definition INITIAL_FEN :: string where
  "INITIAL_FEN = ''rnbqkbnr/pppppppp/8/8/8/8/PPPPPPPP/RNBQKBNR w KQkq - 0 1''"

definition DEFAULT_TIME_LIMIT_MS :: nat where
  "DEFAULT_TIME_LIMIT_MS = 10000"

definition DEFAULT_MOVE_DELAY_MS :: nat where
  "DEFAULT_MOVE_DELAY_MS = 500"

text \<open>\<^verbatim>\<open>WorkerOutMessage\<close>\<close>

datatype WorkerOutMessage = MsgReady | MsgResult string | MsgError string

subsection \<open>The engine and its suspended calls\<close>

text \<open>
  The methods of \<^verbatim>\<open>GameEngine\<close> are asynchronous: a call of \<^verbatim>\<open>play()\<close> or
  \<^verbatim>\<open>step()\<close> runs until it awaits a promise and is resumed when the promise
  settles, and other methods run in between. The model makes this explicit. A suspended
  call is recorded with the frame that called \<^verbatim>\<open>executeSingleMove\<close> and the promise it
  awaits:
  \<^item> \<open>ByPlay sid\<close>: \<^verbatim>\<open>gameLoop(signal)\<close> under \<^verbatim>\<open>play()\<close>, \<open>sid\<close> naming the
    \<^verbatim>\<open>AbortController\<close> created by that call; \<open>ByStepHuman\<close> and \<open>ByStepBot\<close>: the two
    branches of \<^verbatim>\<open>step()\<close>;
  \<^item> \<open>ForHuman sg\<close>: the promise of \<^verbatim>\<open>executeHumanMove\<close>, with its abort listener on
    signal \<open>sg\<close> (\<^verbatim>\<open>this.abortController?.signal\<close>); \<open>ForBot turn worker limit\<close>: the
    promise of \<^verbatim>\<open>requestMove\<close> inside \<^verbatim>\<open>executeBotMove(turn)\<close>, whose timer runs
    \<open>limit + 1000\<close> ms; \<open>ForDelay\<close>: the promise of \<^verbatim>\<open>delay\<close> in the loop;
    \<open>Forever\<close>: a promise nothing settles any more.
\<close>

datatype caller = ByPlay nat | ByStepHuman | ByStepBot

datatype waiting = ForHuman "nat option" | ForBot color nat nat | ForDelay | Forever

record suspension =
  caller :: caller
  waiting :: waiting

text \<open>
  The private fields of the class, followed by what the model keeps of the runtime:
  \<open>emitted\<close>, the states passed to \<^verbatim>\<open>onStateChange\<close>, oldest first; \<open>aborted\<close>, the
  signals that are aborted; \<open>terminated\<close>, the workers that are terminated;
  \<open>suspended\<close>, the suspended calls by number; \<open>resolved\<close>, the calls whose promise is
  resolved and which run next; \<open>uncaught\<close>, the number of promises of \<^verbatim>\<open>play()\<close> or
  \<^verbatim>\<open>step()\<close> that were rejected, that is, of exceptions that left the engine;
  \<open>nextId\<close>, the next fresh number for a controller, a worker or a call. The field
  \<^verbatim>\<open>timeLimitMs\<close> is \<open>engineTimeLimitMs\<close> here, and \<open>humanMoveResolve\<close> holds the
  number of the call whose promise it resolves.
\<close>

record 'p GameEngine =
  chess :: 'p
  whiteWorker :: "nat option"
  blackWorker :: "nat option"
  whiteReady :: bool
  blackReady :: bool
  state :: GameState
  moveDelayMs :: nat
  engineTimeLimitMs :: nat
  abortController :: "nat option"
  stepping :: bool
  humanMoveResolve :: "nat option"
  emitted :: "GameState list"
  aborted :: "nat list"
  terminated :: "nat list"
  suspended :: "(nat \<times> suspension) list"
  resolved :: "nat list"
  uncaught :: nat
  nextId :: nat

text \<open>The constructor; \<^verbatim>\<open>this.state\<close> is still undefined when it builds the first state.\<close>

definition newEngine :: "'p chess_js \<Rightarrow> 'p GameEngine" where
  "newEngine R =
     \<lparr>chess = newChess R, whiteWorker = None, blackWorker = None,
      whiteReady = False, blackReady = False,
      state = \<lparr>status = Idle, result = NoResult, fen = chessFen R (newChess R), moves = [],
               currentTurn = chessTurn R (newChess R), whitePlayer = None, blackPlayer = None,
               lastMoveTimeMs = 0, timeLimitMs = DEFAULT_TIME_LIMIT_MS\<rparr>,
      moveDelayMs = DEFAULT_MOVE_DELAY_MS, engineTimeLimitMs = DEFAULT_TIME_LIMIT_MS,
      abortController = None, stepping = False, humanMoveResolve = None,
      emitted = [], aborted = [], terminated = [], suspended = [], resolved = [],
      uncaught = 0, nextId = 0\<rparr>"

definition buildState :: "'p chess_js \<Rightarrow> GameStatus \<Rightarrow> GameResult \<Rightarrow> 'p GameEngine \<Rightarrow> GameState" where
  "buildState R st res e =
     \<lparr>status = st, result = res, fen = chessFen R (chess e), moves = moves (state e),
      currentTurn = chessTurn R (chess e), whitePlayer = whitePlayer (state e),
      blackPlayer = blackPlayer (state e), lastMoveTimeMs = lastMoveTimeMs (state e),
      timeLimitMs = engineTimeLimitMs e\<rparr>"

definition emit :: "'p chess_js \<Rightarrow> GameStatus \<Rightarrow> GameResult \<Rightarrow> 'p GameEngine \<Rightarrow> 'p GameEngine" where
  "emit R st res e =
     e\<lparr>state := buildState R st res e, emitted := emitted e @ [buildState R st res e]\<rparr>"

definition getState :: "'p GameEngine \<Rightarrow> GameState" where
  "getState e = state e"

definition setMoveDelay :: "nat \<Rightarrow> 'p GameEngine \<Rightarrow> 'p GameEngine" where
  "setMoveDelay ms e = e\<lparr>moveDelayMs := ms\<rparr>"

definition setTimeLimit :: "nat \<Rightarrow> 'p GameEngine \<Rightarrow> 'p GameEngine" where
  "setTimeLimit ms e = e\<lparr>engineTimeLimitMs := ms\<rparr>"

definition getTimeLimit :: "'p GameEngine \<Rightarrow> nat" where
  "getTimeLimit e = engineTimeLimitMs e"

text \<open>The player of the side to move, as \<^verbatim>\<open>isHumanTurn\<close> and \<^verbatim>\<open>executeSingleMove\<close> read it.\<close>

definition playerToMove :: "'p chess_js \<Rightarrow> 'p GameEngine \<Rightarrow> PlayerInfo option" where
  "playerToMove R e =
     (if chessTurn R (chess e) = W then whitePlayer (state e) else blackPlayer (state e))"

definition isHumanTurn :: "'p chess_js \<Rightarrow> 'p GameEngine \<Rightarrow> bool" where
  "isHumanTurn R e =
     (case playerToMove R e of None \<Rightarrow> False | Some p \<Rightarrow> ptype p = TypeHuman)"

definition finishGame :: "'p chess_js \<Rightarrow> 'p GameEngine \<Rightarrow> 'p GameEngine" where
  "finishGame R e =
     emit R Finished
       (if isCheckmate R (chess e) then Checkmate (if chessTurn R (chess e) = W then B else W)
        else if isStalemate R (chess e) then Stalemate
        else if isThreefoldRepetition R (chess e) then DrawRepetition
        else if isInsufficientMaterial R (chess e) then DrawInsufficient
        else if isDraw R (chess e) then Draw50Move
        else NoResult) e"

text \<open>\<^verbatim>\<open>this.state.moves.push(moveRecord); this.state.lastMoveTimeMs = t\<close>\<close>

definition pushMove :: "MoveRecord \<Rightarrow> nat \<Rightarrow> 'p GameEngine \<Rightarrow> 'p GameEngine" where
  "pushMove r t e = e\<lparr>state := (state e)\<lparr>moves := moves (state e) @ [r], lastMoveTimeMs := t\<rparr>\<rparr>"

text \<open>\<^verbatim>\<open>Math.ceil(this.state.moves.length / 2) + 1\<close>\<close>

definition nextMoveNumber :: "'p GameEngine \<Rightarrow> nat" where
  "nextMoveNumber e = (length (moves (state e)) + 1) div 2 + 1"

text \<open>
  The end of \<^verbatim>\<open>executeHumanMove\<close> and of \<^verbatim>\<open>executeBotMove\<close>, once the move is on the
  board: finish the game, or emit the status for the new side to move.
\<close>

definition settle :: "'p chess_js \<Rightarrow> 'p GameEngine \<Rightarrow> 'p GameEngine" where
  "settle R e =
     (if isGameOver R (chess e) then finishGame R e
      else if \<not> stepping e then
        (if isHumanTurn R e then emit R WaitingHuman NoResult e else emit R Running NoResult e)
      else emit R Paused NoResult e)"

text \<open>
  A stretch of code between two awaits ends in \<open>Done\<close> (the call returned) or in
  \<open>Wait\<close> (it awaits the promise named).
\<close>

datatype 'p outcome = Done "'p GameEngine" | Wait waiting "'p GameEngine"

text \<open>\<^verbatim>\<open>executeHumanMove\<close> up to its await; \<open>tid\<close> numbers the running call.\<close>

definition executeHumanMove :: "'p chess_js \<Rightarrow> nat \<Rightarrow> 'p GameEngine \<Rightarrow> 'p outcome" where
  "executeHumanMove R tid e =
     Wait (ForHuman (abortController e))
       ((emit R WaitingHuman NoResult e)\<lparr>humanMoveResolve := Some tid\<rparr>)"

text \<open>\<^verbatim>\<open>executeBotMove(turn)\<close> up to \<^verbatim>\<open>await this.requestMove(worker, fen, turn)\<close>.\<close>

definition executeBotMove :: "'p chess_js \<Rightarrow> color \<Rightarrow> 'p GameEngine \<Rightarrow> 'p outcome" where
  "executeBotMove R turn e =
     (case (if turn = W then whiteWorker e else blackWorker e) of
        None \<Rightarrow> Done (emit R Finished (Forfeit turn Invalid) e)
      | Some worker \<Rightarrow> Wait (ForBot turn worker (engineTimeLimitMs e)) (emit R Running NoResult e))"

definition executeSingleMove :: "'p chess_js \<Rightarrow> nat \<Rightarrow> 'p GameEngine \<Rightarrow> 'p outcome" where
  "executeSingleMove R tid e =
     (case playerToMove R e of
        None \<Rightarrow> Done (emit R Finished (Forfeit (chessTurn R (chess e)) Invalid) e)
      | Some player \<Rightarrow>
          if ptype player = TypeHuman then executeHumanMove R tid e
          else executeBotMove R (chessTurn R (chess e)) e)"

text \<open>
  \<^verbatim>\<open>gameLoop(signal)\<close>. After \<^verbatim>\<open>executeSingleMove\<close> has returned, the loop leaves,
  awaits the inter-move delay, or goes round again.
\<close>

datatype 'p after_move = Leave "'p GameEngine" | Sleep "'p GameEngine" | Again "'p GameEngine"

definition afterSingleMove :: "'p chess_js \<Rightarrow> nat \<Rightarrow> 'p GameEngine \<Rightarrow> 'p after_move" where
  "afterSingleMove R sid e =
     (if status (state e) = Finished then Leave e
      else if sid \<in> set (aborted e) then Leave e
      else if 0 < moveDelayMs e \<and> \<not> isHumanTurn R e then Sleep e
      else Again e)"

function gameLoop :: "'p chess_js \<Rightarrow> nat \<Rightarrow> nat \<Rightarrow> 'p GameEngine \<Rightarrow> 'p outcome" where
  "gameLoop R sid tid e =
     (if \<not> isGameOver R (chess e) \<and> sid \<notin> set (aborted e) then
        (case executeSingleMove R tid e of
           Wait w e1 \<Rightarrow> Wait w e1
         | Done e1 \<Rightarrow>
             (case afterSingleMove R sid e1 of
                Leave e2 \<Rightarrow> Done e2
              | Sleep e2 \<Rightarrow> Wait ForDelay e2
              | Again e2 \<Rightarrow> gameLoop R sid tid e2))
      else if sid \<notin> set (aborted e) \<and> isGameOver R (chess e) then Done (finishGame R e)
      else Done e)"
  by pat_completeness auto
termination
  by (relation "{}")
     (auto simp add: executeSingleMove_def executeHumanMove_def executeBotMove_def
        afterSingleMove_def emit_def buildState_def split: option.splits if_splits)

declare gameLoop.simps [simp del]

text \<open>Back in the caller of \<^verbatim>\<open>executeSingleMove\<close>, after the awaited move.\<close>

definition backToCaller :: "'p chess_js \<Rightarrow> caller \<Rightarrow> nat \<Rightarrow> 'p GameEngine \<Rightarrow> 'p outcome" where
  "backToCaller R c tid e =
     (case c of
        ByPlay sid \<Rightarrow>
          (case afterSingleMove R sid e of
             Leave e1 \<Rightarrow> Done e1
           | Sleep e1 \<Rightarrow> Wait ForDelay e1
           | Again e1 \<Rightarrow> gameLoop R sid tid e1)
      | ByStepHuman \<Rightarrow> Done e
      | ByStepBot \<Rightarrow> Done (e\<lparr>stepping := False\<rparr>))"

text \<open>Recording where call \<open>tid\<close> stands: returned, or suspended.\<close>

definition dropCall :: "nat \<Rightarrow> (nat \<times> suspension) list \<Rightarrow> (nat \<times> suspension) list" where
  "dropCall tid xs = filter (\<lambda>x. fst x \<noteq> tid) xs"

definition park :: "nat \<Rightarrow> caller \<Rightarrow> 'p outcome \<Rightarrow> 'p GameEngine" where
  "park tid c out =
     (case out of
        Done e \<Rightarrow> e\<lparr>suspended := dropCall tid (suspended e)\<rparr>
      | Wait w e \<Rightarrow>
          e\<lparr>suspended := dropCall tid (suspended e) @ [(tid, \<lparr>caller = c, waiting = w\<rparr>)]\<rparr>)"

subsection \<open>Cancelling\<close>

text \<open>
  \<^verbatim>\<open>this.abortController?.abort()\<close>. The signal becomes aborted and its listeners run:
  the one of \<^verbatim>\<open>executeHumanMove\<close> clears \<^verbatim>\<open>humanMoveResolve\<close> and rejects the
  promise, the one of \<^verbatim>\<open>delay\<close> clears the timer and rejects. \<^verbatim>\<open>requestMove\<close>
  registers no listener, so a call that waits for a worker is left as it is. A rejected
  call ends in the \<^verbatim>\<open>catch\<close> of \<^verbatim>\<open>play()\<close> or of the human branch of
  \<^verbatim>\<open>step()\<close>; the bot branch of \<^verbatim>\<open>step()\<close> has no \<^verbatim>\<open>catch\<close>.
\<close>

definition hears :: "nat \<Rightarrow> suspension \<Rightarrow> bool" where
  "hears sid s =
     (case waiting s of
        ForHuman sg \<Rightarrow> sg = Some sid
      | ForDelay \<Rightarrow> (case caller s of ByPlay sd \<Rightarrow> sd = sid | _ \<Rightarrow> False)
      | _ \<Rightarrow> False)"

definition isForHuman :: "suspension \<Rightarrow> bool" where
  "isForHuman s = (case waiting s of ForHuman _ \<Rightarrow> True | _ \<Rightarrow> False)"

definition rejectedCall :: "suspension \<Rightarrow> 'p GameEngine \<Rightarrow> 'p GameEngine" where
  "rejectedCall s e =
     (case caller s of
        ByPlay _ \<Rightarrow> e
      | ByStepHuman \<Rightarrow> e
      | ByStepBot \<Rightarrow> e\<lparr>uncaught := uncaught e + 1\<rparr>)"

definition abort :: "'p GameEngine \<Rightarrow> 'p GameEngine" where
  "abort e =
     (case abortController e of
        None \<Rightarrow> e
      | Some sid \<Rightarrow>
          fold rejectedCall (map snd (filter (\<lambda>x. hears sid (snd x)) (suspended e)))
            (e\<lparr>aborted := sid # aborted e,
               suspended := filter (\<lambda>x. \<not> hears sid (snd x)) (suspended e),
               humanMoveResolve :=
                 (if \<exists>x \<in> set (suspended e). hears sid (snd x) \<and> isForHuman (snd x) then None
                  else humanMoveResolve e)\<rparr>))"

definition pause :: "'p chess_js \<Rightarrow> 'p GameEngine \<Rightarrow> 'p GameEngine" where
  "pause R e =
     (if status (state e) \<noteq> Running \<and> status (state e) \<noteq> WaitingHuman then e
      else emit R Paused NoResult ((abort e)\<lparr>abortController := None, humanMoveResolve := None\<rparr>))"

definition reset :: "'p chess_js \<Rightarrow> 'p GameEngine \<Rightarrow> 'p GameEngine" where
  "reset R e =
     emit R Idle NoResult
       ((abort e)\<lparr>abortController := None, humanMoveResolve := None, chess := newChess R,
          state := (state e)\<lparr>status := Idle, result := NoResult, fen := INITIAL_FEN, moves := [],
                     currentTurn := W, lastMoveTimeMs := 0\<rparr>\<rparr>)"

definition cleanup :: "'p GameEngine \<Rightarrow> 'p GameEngine" where
  "cleanup e =
     (abort e)\<lparr>abortController := None, humanMoveResolve := None,
        terminated := (case whiteWorker e of None \<Rightarrow> [] | Some w \<Rightarrow> [w])
                      @ (case blackWorker e of None \<Rightarrow> [] | Some w \<Rightarrow> [w]) @ terminated e,
        whiteWorker := None, blackWorker := None, whiteReady := False, blackReady := False\<rparr>"

subsection \<open>Loading, playing, stepping\<close>

text \<open>
  \<^verbatim>\<open>loadPlayers\<close>. A worker is created for each side that is a bot; the flags say
  whether the white and the black worker answer \<^verbatim>\<open>ready\<close> within 30 s. The wait for
  the workers is taken as one step. The result says whether the promise was fulfilled;
  when it is rejected, the error goes to the caller and no state is emitted.
\<close>

definition hasBot :: "PlayerInfo \<Rightarrow> bool" where
  "hasBot p = (ptype p = TypeBot \<and> bot p \<noteq> None)"

definition loadPlayers ::
  "'p chess_js \<Rightarrow> PlayerInfo \<Rightarrow> PlayerInfo \<Rightarrow> bool \<Rightarrow> bool \<Rightarrow> 'p GameEngine \<Rightarrow> bool \<times> 'p GameEngine" where
  "loadPlayers R white black whiteAnswers blackAnswers e =
     (let e1 = (cleanup e)\<lparr>chess := newChess R\<rparr>;
          e2 = e1\<lparr>state := \<lparr>status = Idle, result = NoResult, fen = INITIAL_FEN, moves = [],
                     currentTurn = W, whitePlayer = Some white, blackPlayer = Some black,
                     lastMoveTimeMs = 0, timeLimitMs = engineTimeLimitMs e1\<rparr>\<rparr>;
          e3 = (if hasBot white
                then e2\<lparr>whiteWorker := Some (nextId e2), nextId := nextId e2 + 1,
                        whiteReady := whiteAnswers\<rparr>
                else e2);
          e4 = (if hasBot black
                then e3\<lparr>blackWorker := Some (nextId e3), nextId := nextId e3 + 1,
                        blackReady := blackAnswers\<rparr>
                else e3)
      in if (hasBot white \<longrightarrow> whiteAnswers) \<and> (hasBot black \<longrightarrow> blackAnswers)
         then (True, emit R Idle NoResult e4)
         else (False, e4))"

definition play :: "'p chess_js \<Rightarrow> 'p GameEngine \<Rightarrow> 'p GameEngine" where
  "play R e =
     (if status (state e) = Finished then e
      else if status (state e) = Running then e
      else
        let sid = nextId e;
            tid = nextId e + 1;
            e1 = e\<lparr>abortController := Some sid, nextId := nextId e + 2\<rparr>;
            e2 = (if isHumanTurn R e1 then emit R WaitingHuman NoResult e1
                  else emit R Running NoResult e1)
        in park tid (ByPlay sid) (gameLoop R sid tid e2))"

definition step :: "'p chess_js \<Rightarrow> 'p GameEngine \<Rightarrow> 'p GameEngine" where
  "step R e =
     (if status (state e) = Finished then e
      else if status (state e) = Running then e
      else if isHumanTurn R e then
        (let sid = nextId e;
             tid = nextId e + 1;
             e1 = e\<lparr>abortController := Some sid, nextId := nextId e + 2\<rparr>
         in park tid ByStepHuman (executeSingleMove R tid (emit R WaitingHuman NoResult e1)))
      else
        (let tid = nextId e;
             e1 = e\<lparr>stepping := True, nextId := nextId e + 1\<rparr>
         in park tid ByStepBot
              (case executeSingleMove R tid e1 of
                 Done e2 \<Rightarrow> Done (e2\<lparr>stepping := False\<rparr>)
               | Wait w e2 \<Rightarrow> Wait w e2)))"

subsection \<open>Human moves\<close>

text \<open>
  \<^verbatim>\<open>submitHumanMove(from, to, promotion)\<close>: the flag it returns and the engine after
  it. Resolving the promise of \<^verbatim>\<open>executeHumanMove\<close> puts the waiting call into
  \<open>resolved\<close>; it runs when the caller of \<^verbatim>\<open>submitHumanMove\<close> is done.
\<close>

definition submitHumanMove ::
  "'p chess_js \<Rightarrow> string \<Rightarrow> string \<Rightarrow> string option \<Rightarrow> 'p GameEngine \<Rightarrow> bool \<times> 'p GameEngine" where
  "submitHumanMove R from to promotion e =
     (case chessMove R (chess e) from to promotion of
        MoveThrows \<Rightarrow> (False, e)
      | MoveNull \<Rightarrow> (False, e)
      | Moved sn c p \<Rightarrow>
          (let moveRecord =
                 \<lparr>moveNumber = nextMoveNumber e, san = sn,
                  uci = from @ to @ (case promotion of None \<Rightarrow> [] | Some pr \<Rightarrow> pr),
                  fenAfter = chessFen R p, color = c, timeMs = 0\<rparr>;
               e1 = pushMove moveRecord 0 (e\<lparr>chess := p\<rparr>)
           in (True,
               case humanMoveResolve e1 of
                 None \<Rightarrow> e1
               | Some tid \<Rightarrow> e1\<lparr>resolved := resolved e1 @ [tid], humanMoveResolve := None\<rparr>)))"

text \<open>The rest of \<^verbatim>\<open>executeHumanMove\<close>, run by the call whose promise was resolved.\<close>

definition humanMoveDone :: "'p chess_js \<Rightarrow> nat \<Rightarrow> 'p GameEngine \<Rightarrow> 'p GameEngine" where
  "humanMoveDone R tid e =
     (case map_of (suspended e) tid of
        None \<Rightarrow> e
      | Some s \<Rightarrow>
          if isForHuman s then park tid (caller s) (backToCaller R (caller s) tid (settle R e))
          else e)"

definition runResolved :: "'p chess_js \<Rightarrow> 'p GameEngine \<Rightarrow> 'p GameEngine" where
  "runResolved R e = fold (humanMoveDone R) (resolved e) (e\<lparr>resolved := []\<rparr>)"

subsection \<open>Bot moves\<close>

text \<open>\<^verbatim>\<open>msg.includes('timeout')\<close>\<close>

fun includesStr :: "string \<Rightarrow> string \<Rightarrow> bool" where
  "includesStr [] sub = (sub = [])"
| "includesStr (c # cs) sub = (prefix sub (c # cs) \<or> includesStr cs sub)"

text \<open>
  How the promise of \<^verbatim>\<open>requestMove\<close> settles when the worker's message comes
  \<open>latency\<close> ms after the request: the timer of \<open>limit + 1000\<close> ms rejects it first when
  the latency is longer (a worker that never answers is this case); otherwise the
  handler resolves it on \<^verbatim>\<open>result\<close>, rejects it on \<^verbatim>\<open>error\<close>, and on any other
  message clears the timer and leaves the promise pending.
\<close>

datatype settled = Resolved string | Rejected string | Unsettled

definition requestMove :: "color \<Rightarrow> nat \<Rightarrow> nat \<Rightarrow> WorkerOutMessage \<Rightarrow> settled" where
  "requestMove turn limit latency msg =
     (if limit + 1000 < latency
      then Rejected (''timeout: '' @ (if turn = W then ''White'' else ''Black'')
                       @ '' bot exceeded time limit'')
      else case msg of
             MsgResult u \<Rightarrow> Resolved u
           | MsgError m \<Rightarrow> Rejected m
           | MsgReady \<Rightarrow> Unsettled)"

text \<open>
  \<^verbatim>\<open>uci.substring(0, 2)\<close>, \<^verbatim>\<open>uci.substring(2, 4)\<close> and
  \<^verbatim>\<open>uci.length > 4 ? uci[4] : undefined\<close>
\<close>

definition uciFrom :: "string \<Rightarrow> string" where
  "uciFrom u = take 2 u"

definition uciTo :: "string \<Rightarrow> string" where
  "uciTo u = take 2 (drop 2 u)"

definition uciPromotion :: "string \<Rightarrow> string option" where
  "uciPromotion u = (if 4 < length u then Some [u ! 4] else None)"

text \<open>
  The rest of \<^verbatim>\<open>executeBotMove(turn)\<close> after the await: the \<^verbatim>\<open>catch\<close> of the request,
  or validating and applying the move; \<open>elapsed\<close> is the rounded time measured.
\<close>

definition botMoveDone ::
  "'p chess_js \<Rightarrow> color \<Rightarrow> nat \<Rightarrow> settled \<Rightarrow> 'p GameEngine \<Rightarrow> 'p GameEngine" where
  "botMoveDone R turn elapsed s e =
     (case s of
        Unsettled \<Rightarrow> e
      | Rejected msg \<Rightarrow>
          if includesStr msg ''timeout'' then emit R Finished (Forfeit turn Timeout) e
          else emit R Finished (Forfeit turn Invalid) e
      | Resolved u \<Rightarrow>
          (case chessMove R (chess e) (uciFrom u) (uciTo u) (uciPromotion u) of
             MoveThrows \<Rightarrow> emit R Finished (Forfeit turn Invalid) e
           | MoveNull \<Rightarrow> emit R Finished (Forfeit turn Invalid) e
           | Moved sn c p \<Rightarrow>
               settle R
                 (pushMove
                    \<lparr>moveNumber = nextMoveNumber e, san = sn, uci = u, fenAfter = chessFen R p,
                     color = turn, timeMs = elapsed\<rparr>
                    elapsed (e\<lparr>chess := p\<rparr>))))"

text \<open>
  The worker's message for call \<open>tid\<close> arrives after \<open>latency\<close> ms, or its timer fires.
  A terminated worker sends nothing, so only its timer can fire.
\<close>

definition botAnswered ::
  "'p chess_js \<Rightarrow> nat \<Rightarrow> nat \<Rightarrow> WorkerOutMessage \<Rightarrow> 'p GameEngine \<Rightarrow> 'p GameEngine" where
  "botAnswered R tid latency msg e =
     (case map_of (suspended e) tid of
        None \<Rightarrow> e
      | Some s \<Rightarrow>
          (case waiting s of
             ForBot turn worker limit \<Rightarrow>
               if worker \<in> set (terminated e) \<and> latency \<le> limit + 1000 then e
               else
                 (case requestMove turn limit latency msg of
                    Unsettled \<Rightarrow> park tid (caller s) (Wait Forever e)
                  | r \<Rightarrow>
                      park tid (caller s)
                        (backToCaller R (caller s) tid (botMoveDone R turn latency r e)))
           | _ \<Rightarrow> e))"

text \<open>The timer of \<^verbatim>\<open>delay\<close> fires for call \<open>tid\<close>: the loop tests its condition again.\<close>

definition delayElapsed :: "'p chess_js \<Rightarrow> nat \<Rightarrow> 'p GameEngine \<Rightarrow> 'p GameEngine" where
  "delayElapsed R tid e =
     (case map_of (suspended e) tid of
        None \<Rightarrow> e
      | Some s \<Rightarrow>
          (case (caller s, waiting s) of
             (ByPlay sid, ForDelay) \<Rightarrow> park tid (ByPlay sid) (gameLoop R sid tid e)
           | _ \<Rightarrow> e))"

subsection \<open>Runs of the engine\<close>

text \<open>
  What happens to an engine, one thing at a time: a method is called, or a promise of
  a suspended call settles.
\<close>

datatype event =
    CallLoadPlayers PlayerInfo PlayerInfo bool bool
  | CallPlay
  | CallPause
  | CallStep
  | CallReset
  | CallCleanup
  | CallSubmitHumanMove string string "string option"
  | CallSetMoveDelay nat
  | CallSetTimeLimit nat
  | BotAnswer nat nat WorkerOutMessage
  | DelayElapsed nat

definition fire :: "'p chess_js \<Rightarrow> event \<Rightarrow> 'p GameEngine \<Rightarrow> 'p GameEngine" where
  "fire R ev e =
     (case ev of
        CallLoadPlayers white black wa ba \<Rightarrow> snd (loadPlayers R white black wa ba e)
      | CallPlay \<Rightarrow> play R e
      | CallPause \<Rightarrow> pause R e
      | CallStep \<Rightarrow> step R e
      | CallReset \<Rightarrow> reset R e
      | CallCleanup \<Rightarrow> cleanup e
      | CallSubmitHumanMove from to promotion \<Rightarrow>
          runResolved R (snd (submitHumanMove R from to promotion e))
      | CallSetMoveDelay ms \<Rightarrow> setMoveDelay ms e
      | CallSetTimeLimit ms \<Rightarrow> setTimeLimit ms e
      | BotAnswer tid latency msg \<Rightarrow> botAnswered R tid latency msg e
      | DelayElapsed tid \<Rightarrow> delayElapsed R tid e)"

definition run :: "'p chess_js \<Rightarrow> event list \<Rightarrow> 'p GameEngine \<Rightarrow> 'p GameEngine" where
  "run R evs e = fold (fire R) evs e"

subsection \<open>Reading the oracle\<close>

text \<open>The move is in the legal-move set of the position: \<^verbatim>\<open>chess.move\<close> accepts it.\<close>

definition legalMove :: "'p chess_js \<Rightarrow> 'p \<Rightarrow> string \<Rightarrow> string \<Rightarrow> string option \<Rightarrow> bool" where
  "legalMove R p from to promotion =
     (case chessMove R p from to promotion of Moved _ _ _ \<Rightarrow> True | _ \<Rightarrow> False)"

subsection \<open>Whole games\<close>




text \<open>
  The side of colour \<open>c\<close> can move: its player is a human, or a bot whose worker is
  running. An engine is ready to play when no game is running or finished on it, no call
  is suspended, it is not stepping, both sides can move and the number of the next
  controller is fresh.
\<close>

definition seated :: "'p GameEngine \<Rightarrow> color \<Rightarrow> bool" where
  "seated e c =
     (case (if c = W then whitePlayer (state e) else blackPlayer (state e)) of
        None \<Rightarrow> False
      | Some pl \<Rightarrow>
          ptype pl = TypeHuman
          \<or> (case (if c = W then whiteWorker e else blackWorker e) of
                None \<Rightarrow> False
              | Some w \<Rightarrow> w \<notin> set (terminated e)))"


text \<open>
  The environment of a game under \<^verbatim>\<open>play()\<close>: the move \<open>u\<close> comes to the suspended
  call \<open>tid\<close>. When the call awaits the inter-move delay, the delay elapses first; then
  a bot's worker answers \<open>u\<close> after \<open>latency\<close> ms, or the human submits \<open>u\<close>.
\<close>

definition wakeDelay :: "'p chess_js \<Rightarrow> nat \<Rightarrow> 'p GameEngine \<Rightarrow> 'p GameEngine" where
  "wakeDelay R tid e =
     (case map_of (suspended e) tid of
        None \<Rightarrow> e
      | Some s \<Rightarrow> if waiting s = ForDelay then fire R (DelayElapsed tid) e else e)"

definition deliverMove ::
  "'p chess_js \<Rightarrow> nat \<Rightarrow> string \<times> nat \<Rightarrow> 'p GameEngine \<Rightarrow> 'p GameEngine" where
  "deliverMove R tid m e =
     (let e1 = wakeDelay R tid e
      in case map_of (suspended e1) tid of
           None \<Rightarrow> e1
         | Some s \<Rightarrow>
             (case waiting s of
                ForBot _ _ _ \<Rightarrow> fire R (BotAnswer tid (snd m) (MsgResult (fst m))) e1
              | ForHuman _ \<Rightarrow>
                  fire R (CallSubmitHumanMove (uciFrom (fst m)) (uciTo (fst m))
                            (uciPromotion (fst m))) e1
              | _ \<Rightarrow> e1))"

definition playMoves ::
  "'p chess_js \<Rightarrow> nat \<Rightarrow> (string \<times> nat) list \<Rightarrow> 'p GameEngine \<Rightarrow> 'p GameEngine" where
  "playMoves R tid ms e = fold (deliverMove R tid) ms e"

subsection \<open>A concrete oracle and engine\<close>

text \<open>
  A small part of chess to run the engine on: the positions of the games 1. e4 e5 and
  1. f3 e5 2. g4 Qh4 mate, a position being the moves played from the start. Only the moves
  of these games are accepted, every other move is refused as chess.js refuses an
  illegal one.
\<close>

definition miniBook :: "((string list \<times> string) \<times> string) list" where
  "miniBook =
     [(([], ''e2e4''), ''e4''),
      (([''e2e4''], ''e7e5''), ''e5''),
      (([], ''f2f3''), ''f3''),
      (([''f2f3''], ''e7e5''), ''e5''),
      (([''f2f3'', ''e7e5''], ''g2g4''), ''g4''),
      (([''f2f3'', ''e7e5'', ''g2g4''], ''d8h4''), ''Qh4#'')]"

definition miniTurn :: "string list \<Rightarrow> color" where
  "miniTurn p = (if even (length p) then W else B)"

definition miniMove :: "string list \<Rightarrow> string \<Rightarrow> string \<Rightarrow> string option \<Rightarrow> string list move_outcome" where
  "miniMove p from to promotion =
     (case promotion of
        Some _ \<Rightarrow> MoveThrows
      | None \<Rightarrow>
          (case map_of miniBook (p, from @ to) of
             None \<Rightarrow> MoveThrows
           | Some sn \<Rightarrow> Moved sn (miniTurn p) (p @ [from @ to])))"

definition miniMate :: "string list \<Rightarrow> bool" where
  "miniMate p = (p = [''f2f3'', ''e7e5'', ''g2g4'', ''d8h4''])"

definition miniFen :: "string list \<Rightarrow> string" where
  "miniFen p =
     (if p = [] then INITIAL_FEN
      else if p = [''e2e4''] then ''rnbqkbnr/pppppppp/8/8/4P3/8/PPPP1PPP/RNBQKBNR b KQkq - 0 1''
      else if p = [''e2e4'', ''e7e5''] then ''rnbqkbnr/pppp1ppp/8/4p3/4P3/8/PPPP1PPP/RNBQKBNR w KQkq - 0 2''
      else if p = [''f2f3''] then ''rnbqkbnr/pppppppp/8/8/8/5P2/PPPPP1PP/RNBQKBNR b KQkq - 0 1''
      else if p = [''f2f3'', ''e7e5''] then ''rnbqkbnr/pppp1ppp/8/4p3/8/5P2/PPPPP1PP/RNBQKBNR w KQkq - 0 2''
      else if p = [''f2f3'', ''e7e5'', ''g2g4''] then ''rnbqkbnr/pppp1ppp/8/4p3/6P1/5P2/PPPPP2P/RNBQKBNR b KQkq - 0 2''
      else if p = [''f2f3'', ''e7e5'', ''g2g4'', ''d8h4''] then ''rnb1kbnr/pppp1ppp/8/4p3/6Pq/5P2/PPPPP2P/RNBQKBNR w KQkq - 1 3''
      else [])"

definition miniChess :: "string list chess_js" where
  "miniChess =
     \<lparr>newChess = [], chessFen = miniFen, chessTurn = miniTurn, chessMove = miniMove,
      isGameOver = miniMate, isCheckmate = miniMate, isStalemate = (\<lambda>p. False),
      isThreefoldRepetition = (\<lambda>p. False), isInsufficientMaterial = (\<lambda>p. False),
      isDraw = (\<lambda>p. False)\<rparr>"

text \<open>A new engine with two bots loaded.\<close>

definition botPlayer :: "BotInfo \<Rightarrow> PlayerInfo" where
  "botPlayer b = \<lparr>ptype = TypeBot, bot = Some b\<rparr>"

definition botsLoaded :: "string list GameEngine" where
  "botsLoaded = snd (loadPlayers miniChess (botPlayer botA) (botPlayer botB) True True (newEngine miniChess))"

text \<open>A new engine with a human on white and a bot on black.\<close>

definition humanLoaded :: "string list GameEngine" where
  "humanLoaded =
     snd (loadPlayers miniChess HUMAN_PLAYER (botPlayer botB) True True (newEngine miniChess))"

section \<open>Properties of the match controller\<close>

lemma matchLoop_1:
  "matchLoop eng whiteBot blackBot (Suc 0) v =
     (case playGame eng whiteBot blackBot (Suc 0) v of
        Return r \<Rightarrow> Inr r | Throw e \<Rightarrow> Inl e
      | Continue v' \<Rightarrow> matchLoop eng whiteBot blackBot 2 v')"
  by (subst matchLoop.simps) (simp add: numeral_2_eq_2 split: game_step.split)

lemma matchLoop_2:
  "matchLoop eng whiteBot blackBot 2 v =
     (case playGame eng whiteBot blackBot 2 v of
        Return r \<Rightarrow> Inr r | Throw e \<Rightarrow> Inl e
      | Continue v' \<Rightarrow> matchLoop eng whiteBot blackBot 3 v')"
  by (subst matchLoop.simps) (simp split: game_step.split)

lemma matchLoop_3:
  "matchLoop eng whiteBot blackBot 3 v =
     (case playGame eng whiteBot blackBot 3 v of
        Return r \<Rightarrow> Inr r | Throw e \<Rightarrow> Inl e
      | Continue v' \<Rightarrow> matchLoop eng whiteBot blackBot 4 v')"
  by (subst matchLoop.simps) (simp split: game_step.split)

lemma matchLoop_4: "matchLoop eng whiteBot blackBot 4 v = Inl NoMatchWinner"
  by (subst matchLoop.simps) simp

lemmas matchLoop_eval = matchLoop_1 matchLoop_2 matchLoop_3 matchLoop_4

lemmas match_defs = playBotMatch_def playGame_def currentBots_def pushResult_def returning_def

lemmas reading_defs = finishedGame_def winnerColorOf_def reasonOf_def seeded_def opponent_def

lemmas runs_defs = runs_def endedWith_def getWinnerColor_def getGameWinReason_def

lemma finishedGameE:
  assumes "finishedGame eng n"
  obtains st where "eng n = Ended st" "status st = Finished"
  using assms by (auto simp: finishedGame_def split: engine_run.splits)

lemma color_option_cases: "c = None \<or> c = Some W \<or> c = Some B"
  by (metis color.exhaust option.exhaust)

text \<open>
  C6. When one side wins both game 1 and game 2, the match ends after exactly these two
  games: \<^verbatim>\<open>playBotMatch\<close> returns that side as winner and the other as loser, two
  results are recorded, and \<^verbatim>\<open>loadPlayers\<close> was called twice, so game 3 is never
  started.
\<close>

theorem two_wins_end_match:
  assumes "finishedGame eng 1" "finishedGame eng 2"
    and "winnerColorOf eng 1 = Some c" "winnerColorOf eng 2 = Some c"
  shows "playBotMatch (Some eng) whiteBot blackBot =
      Inr \<lparr>matchWinner = seeded whiteBot blackBot c,
           matchLoser = seeded whiteBot blackBot (opponent c),
           matchGames =
             [\<lparr>winner = seeded whiteBot blackBot c,
               loser = seeded whiteBot blackBot (opponent c), reason = reasonOf eng 1\<rparr>,
              \<lparr>winner = seeded whiteBot blackBot c,
               loser = seeded whiteBot blackBot (opponent c), reason = reasonOf eng 2\<rparr>],
           matchPlayed = [(whiteBot, blackBot), (whiteBot, blackBot)]\<rparr>"
proof -
  from assms(1) obtain s1 where s1: "eng 1 = Ended s1" "status s1 = Finished"
    by (rule finishedGameE)
  from assms(2) obtain s2 where s2: "eng 2 = Ended s2" "status s2 = Finished"
    by (rule finishedGameE)
  from assms(3,4) s1 s2
  have w: "getWinnerColor (result s1) = Some c" "getWinnerColor (result s2) = Some c"
    by (simp_all add: winnerColorOf_def)
  show ?thesis
    using s1 s2 w
    by (cases c) (simp_all add: match_defs matchLoop_eval reading_defs Let_def)
qed

theorem two_wins_end_match_witness:
  "finishedGame (runs [Checkmate B, Forfeit W Timeout]) 1
   \<and> finishedGame (runs [Checkmate B, Forfeit W Timeout]) 2
   \<and> winnerColorOf (runs [Checkmate B, Forfeit W Timeout]) 1 = Some B
   \<and> winnerColorOf (runs [Checkmate B, Forfeit W Timeout]) 2 = Some B
   \<and> playBotMatch (Some (runs [Checkmate B, Forfeit W Timeout])) botA botB =
      Inr \<lparr>matchWinner = botB, matchLoser = botA,
           matchGames = [\<lparr>winner = botB, loser = botA, reason = ByCheckmate\<rparr>,
                         \<lparr>winner = botB, loser = botA, reason = ByTimeout\<rparr>],
           matchPlayed = [(botA, botB), (botA, botB)]\<rparr>"
proof -
  have h: "finishedGame (runs [Checkmate B, Forfeit W Timeout]) 1"
    "finishedGame (runs [Checkmate B, Forfeit W Timeout]) 2"
    "winnerColorOf (runs [Checkmate B, Forfeit W Timeout]) 1 = Some B"
    "winnerColorOf (runs [Checkmate B, Forfeit W Timeout]) 2 = Some B"
    by (simp_all add: reading_defs runs_defs)
  show ?thesis
    using h two_wins_end_match [OF h, of botA botB]
    by (simp add: reading_defs runs_defs)
qed

text \<open>
  C7, as stated, fails: game 3 is also played when games 1 and 2 did not end 1-1. With
  games 1 and 2 both drawn, three games are started although the series is not split.
\<close>

theorem game3_without_split_counterexample:
  "\<not> isl (playBotMatch (Some (runs [Stalemate, Stalemate, Checkmate W])) botA botB)
   \<and> matchPlayed (projr (playBotMatch (Some (runs [Stalemate, Stalemate, Checkmate W])) botA botB))
       = [(botA, botB), (botA, botB), (botA, botB)]
   \<and> \<not> splitAfterTwo (runs [Stalemate, Stalemate, Checkmate W])"
  by (simp add: match_defs matchLoop_eval runs_defs reading_defs splitAfterTwo_def)

text \<open>
  C7, amended. When all games that are started run to the end, game 3 is played exactly
  when no colour won both game 1 and game 2 (a 1-1 split, or a drawn game among the two);
  otherwise the match has exactly two games. Games 1 and 2 have the seeded colours. In
  game 3 the colours are swapped exactly when white won game 2, so that whenever game 2
  had a winner, the white side of game 3 is the competitor who lost game 2.
\<close>

theorem game3_iff_undecided:
  assumes "finishedGame eng 1" "finishedGame eng 2" "finishedGame eng 3"
  shows "\<exists>r. playBotMatch (Some eng) whiteBot blackBot = Inr r
      \<and> (length (matchPlayed r) = 3) = (\<not> decidedAfterTwo eng)
      \<and> (length (matchPlayed r) = 2) = decidedAfterTwo eng
      \<and> take 2 (matchPlayed r) = [(whiteBot, blackBot), (whiteBot, blackBot)]
      \<and> (\<not> decidedAfterTwo eng \<longrightarrow>
           matchPlayed r ! 2 =
             (if winnerColorOf eng 2 = Some W then (blackBot, whiteBot) else (whiteBot, blackBot)))
      \<and> (\<not> decidedAfterTwo eng \<longrightarrow> (\<forall>c. winnerColorOf eng 2 = Some c \<longrightarrow>
           fst (matchPlayed r ! 2) = seeded whiteBot blackBot (opponent c)))"
proof -
  from assms(1) obtain s1 where s1: "eng 1 = Ended s1" "status s1 = Finished"
    by (rule finishedGameE)
  from assms(2) obtain s2 where s2: "eng 2 = Ended s2" "status s2 = Finished"
    by (rule finishedGameE)
  from assms(3) obtain s3 where s3: "eng 3 = Ended s3" "status s3 = Finished"
    by (rule finishedGameE)
  obtain c1 c2 c3 where c: "getWinnerColor (result s1) = c1" "getWinnerColor (result s2) = c2"
     "getWinnerColor (result s3) = c3" by blast
  have cases: "c1 = None \<or> c1 = Some W \<or> c1 = Some B" "c2 = None \<or> c2 = Some W \<or> c2 = Some B"
     "c3 = None \<or> c3 = Some W \<or> c3 = Some B"
    by (metis color.exhaust option.exhaust)+
  show ?thesis
    using s1 s2 s3 c cases
    by (auto simp add: match_defs matchLoop_eval reading_defs decidedAfterTwo_def Let_def)
qed

theorem game3_iff_undecided_witness:
  "finishedGame (runs [Checkmate B, Checkmate W, Stalemate]) 1
   \<and> finishedGame (runs [Checkmate B, Checkmate W, Stalemate]) 2
   \<and> finishedGame (runs [Checkmate B, Checkmate W, Stalemate]) 3
   \<and> \<not> decidedAfterTwo (runs [Checkmate B, Checkmate W, Stalemate])
   \<and> winnerColorOf (runs [Checkmate B, Checkmate W, Stalemate]) 2 = Some W
   \<and> matchPlayed (projr (playBotMatch (Some (runs [Checkmate B, Checkmate W, Stalemate])) botA botB))
       = [(botA, botB), (botA, botB), (botB, botA)]"
proof -
  have h: "finishedGame (runs [Checkmate B, Checkmate W, Stalemate]) 1"
    "finishedGame (runs [Checkmate B, Checkmate W, Stalemate]) 2"
    "finishedGame (runs [Checkmate B, Checkmate W, Stalemate]) 3"
    by (simp_all add: reading_defs runs_defs)
  show ?thesis
    using h game3_iff_undecided [OF h, of botA botB]
    by (auto simp add: match_defs matchLoop_eval runs_defs reading_defs decidedAfterTwo_def)
qed

text \<open>
  C8, as stated, fails when game 2 was drawn: there is then no winner of game 2, and a
  drawn game 3 makes the black-seeded competitor the match winner. Here white won game 1,
  games 2 and 3 are drawn, and the competitor returned as winner is the one who won no
  game.
\<close>

theorem drawn_game3_no_game2_winner_counterexample:
  "\<not> isl (playBotMatch (Some (runs [Checkmate W, Stalemate, Stalemate])) botA botB)
   \<and> length (matchPlayed (projr (playBotMatch (Some (runs [Checkmate W, Stalemate, Stalemate])) botA botB))) = 3
   \<and> winnerColorOf (runs [Checkmate W, Stalemate, Stalemate]) 3 = None
   \<and> winnerColorOf (runs [Checkmate W, Stalemate, Stalemate]) 2 = None
   \<and> winnerColorOf (runs [Checkmate W, Stalemate, Stalemate]) 1 = Some W
   \<and> matchWinner (projr (playBotMatch (Some (runs [Checkmate W, Stalemate, Stalemate])) botA botB)) = botB"
  by (simp add: match_defs matchLoop_eval runs_defs reading_defs)

text \<open>
  C8, amended. When game 3 is played and drawn and game 2 had a winner, the match winner
  is the winner of game 2 and the match loser is the loser of game 2. The states the
  games ended in are arbitrary, so the think times recorded in them play no role.
\<close>

theorem drawn_game3_follows_game2:
  assumes "finishedGame eng 1" "finishedGame eng 2" "finishedGame eng 3"
    and "\<not> decidedAfterTwo eng"
    and "winnerColorOf eng 3 = None"
    and "winnerColorOf eng 2 = Some c"
  shows "\<exists>r. playBotMatch (Some eng) whiteBot blackBot = Inr r
      \<and> length (matchPlayed r) = 3
      \<and> matchWinner r = seeded whiteBot blackBot c
      \<and> matchLoser r = seeded whiteBot blackBot (opponent c)"
proof -
  from assms(1) obtain s1 where s1: "eng 1 = Ended s1" "status s1 = Finished"
    by (rule finishedGameE)
  from assms(2) obtain s2 where s2: "eng 2 = Ended s2" "status s2 = Finished"
    by (rule finishedGameE)
  from assms(3) obtain s3 where s3: "eng 3 = Ended s3" "status s3 = Finished"
    by (rule finishedGameE)
  have c1: "getWinnerColor (result s1) = None \<or> getWinnerColor (result s1) = Some W
      \<or> getWinnerColor (result s1) = Some B"
    by (rule color_option_cases)
  show ?thesis
    using s1 s2 s3 c1 assms(4,5,6)
    by (cases c) (auto simp add: match_defs matchLoop_eval reading_defs decidedAfterTwo_def Let_def)
qed

theorem drawn_game3_follows_game2_witness:
  "finishedGame (runs [Checkmate B, Forfeit B Invalid, DrawRepetition]) 1
   \<and> finishedGame (runs [Checkmate B, Forfeit B Invalid, DrawRepetition]) 2
   \<and> finishedGame (runs [Checkmate B, Forfeit B Invalid, DrawRepetition]) 3
   \<and> \<not> decidedAfterTwo (runs [Checkmate B, Forfeit B Invalid, DrawRepetition])
   \<and> winnerColorOf (runs [Checkmate B, Forfeit B Invalid, DrawRepetition]) 3 = None
   \<and> winnerColorOf (runs [Checkmate B, Forfeit B Invalid, DrawRepetition]) 2 = Some W
   \<and> matchWinner (projr (playBotMatch (Some (runs [Checkmate B, Forfeit B Invalid, DrawRepetition])) botA botB)) = botA
   \<and> matchLoser (projr (playBotMatch (Some (runs [Checkmate B, Forfeit B Invalid, DrawRepetition])) botA botB)) = botB"
proof -
  have h: "finishedGame (runs [Checkmate B, Forfeit B Invalid, DrawRepetition]) 1"
    "finishedGame (runs [Checkmate B, Forfeit B Invalid, DrawRepetition]) 2"
    "finishedGame (runs [Checkmate B, Forfeit B Invalid, DrawRepetition]) 3"
    "\<not> decidedAfterTwo (runs [Checkmate B, Forfeit B Invalid, DrawRepetition])"
    "winnerColorOf (runs [Checkmate B, Forfeit B Invalid, DrawRepetition]) 3 = None"
    "winnerColorOf (runs [Checkmate B, Forfeit B Invalid, DrawRepetition]) 2 = Some W"
    by (simp_all add: reading_defs decidedAfterTwo_def runs_defs)
  show ?thesis
    using h drawn_game3_follows_game2 [OF h, of botA botB]
    by (auto simp add: seeded_def opponent_def)
qed

text \<open>
  C10. When games 1, 2 and 3 are all drawn, exactly three games are played, the match
  returns the black-seeded competitor as winner and the white-seeded one as loser, and
  the only result recorded, the one of game 3, names the white-seeded competitor as
  winner: the returned winner differs from the winner of the last recorded result.
\<close>

theorem all_drawn_match:
  assumes "finishedGame eng 1" "finishedGame eng 2" "finishedGame eng 3"
    and "winnerColorOf eng 1 = None" "winnerColorOf eng 2 = None" "winnerColorOf eng 3 = None"
    and "whiteBot \<noteq> blackBot"
  shows "\<exists>r. playBotMatch (Some eng) whiteBot blackBot = Inr r
      \<and> matchPlayed r = [(whiteBot, blackBot), (whiteBot, blackBot), (whiteBot, blackBot)]
      \<and> matchWinner r = blackBot \<and> matchLoser r = whiteBot
      \<and> matchGames r = [\<lparr>winner = whiteBot, loser = blackBot, reason = reasonOf eng 3\<rparr>]
      \<and> matchWinner r \<noteq> winner (last (matchGames r))"
proof -
  from assms(1) obtain s1 where s1: "eng 1 = Ended s1" "status s1 = Finished"
    by (rule finishedGameE)
  from assms(2) obtain s2 where s2: "eng 2 = Ended s2" "status s2 = Finished"
    by (rule finishedGameE)
  from assms(3) obtain s3 where s3: "eng 3 = Ended s3" "status s3 = Finished"
    by (rule finishedGameE)
  show ?thesis
    using s1 s2 s3 assms(4-7)
    by (simp add: match_defs matchLoop_eval reading_defs Let_def)
qed

theorem all_drawn_match_witness:
  "finishedGame (runs [Stalemate, DrawInsufficient, Draw50Move]) 1
   \<and> finishedGame (runs [Stalemate, DrawInsufficient, Draw50Move]) 2
   \<and> finishedGame (runs [Stalemate, DrawInsufficient, Draw50Move]) 3
   \<and> winnerColorOf (runs [Stalemate, DrawInsufficient, Draw50Move]) 1 = None
   \<and> winnerColorOf (runs [Stalemate, DrawInsufficient, Draw50Move]) 2 = None
   \<and> winnerColorOf (runs [Stalemate, DrawInsufficient, Draw50Move]) 3 = None
   \<and> botA \<noteq> botB
   \<and> matchWinner (projr (playBotMatch (Some (runs [Stalemate, DrawInsufficient, Draw50Move])) botA botB)) = botB
   \<and> matchGames (projr (playBotMatch (Some (runs [Stalemate, DrawInsufficient, Draw50Move])) botA botB))
       = [\<lparr>winner = botA, loser = botB, reason = ByDraw50Move\<rparr>]"
proof -
  have h: "finishedGame (runs [Stalemate, DrawInsufficient, Draw50Move]) 1"
    "finishedGame (runs [Stalemate, DrawInsufficient, Draw50Move]) 2"
    "finishedGame (runs [Stalemate, DrawInsufficient, Draw50Move]) 3"
    "winnerColorOf (runs [Stalemate, DrawInsufficient, Draw50Move]) 1 = None"
    "winnerColorOf (runs [Stalemate, DrawInsufficient, Draw50Move]) 2 = None"
    "winnerColorOf (runs [Stalemate, DrawInsufficient, Draw50Move]) 3 = None"
    "botA \<noteq> botB"
    by (simp_all add: reading_defs runs_defs botA_def botB_def)
  show ?thesis
    using h all_drawn_match [OF h]
    by (auto simp add: reasonOf_def runs_defs)
qed

section \<open>Properties of the head-to-head records\<close>

lemma h2hNames_commute: "h2hNames a b = h2hNames b a"
  by (auto simp add: h2hNames_def)

lemma entryTotal_track:
  "entryTotal (trackHeadToHead h w l) key =
     entryTotal h key + (if h2hKey w l = key then 1 else 0)"
  by (auto simp add: entryTotal_def trackHeadToHead_def h2hKey_def Let_def split: option.splits)

lemma playMatches_total:
  "playMatches h done ms = Inr (h', rs) \<Longrightarrow>
     entryTotal h' key + length (matchesUnder key done)
       = entryTotal h key + length (matchesUnder key rs)"
proof (induction ms arbitrary: h "done")
  case Nil
  then show ?case by simp
next
  case (Cons m ms)
  obtain wb bb eng where m: "m = (wb, bb, eng)" by (cases m)
  from Cons.prems m obtain r where "playBotMatch (Some eng) wb bb = Inr r"
    and rest: "playMatches (trackHeadToHead h (matchWinner r) (matchLoser r)) (done @ [r]) ms
                 = Inr (h', rs)"
    by (auto split: sum.splits)
  from Cons.IH [OF rest] show ?case
    by (simp add: entryTotal_track matchesUnder_def split: if_splits)
qed

lemma playGame_played:
  "playGame eng wb bb n v = Return r \<Longrightarrow> length (matchPlayed r) = Suc (length (played v))"
  "playGame eng wb bb n v = Continue v' \<Longrightarrow> length (played v') = Suc (length (played v))"
  by (auto simp add: playGame_def returning_def pushResult_def Let_def
      split: engine_run.splits if_splits)

lemma playGame_1_continues: "playGame eng wb bb (Suc 0) v \<noteq> Return r" if "whiteBotWins v = 0" "blackBotWins v = 0"
  using that
  by (auto simp add: playGame_def returning_def pushResult_def Let_def
      split: engine_run.splits if_splits)

lemma two_or_three_games:
  assumes "playBotMatch (Some eng) wb bb = Inr r"
  shows "2 \<le> length (matchPlayed r) \<and> length (matchPlayed r) \<le> 3"
proof -
  let ?v0 = "\<lparr>whiteBotWins = 0, blackBotWins = 0, game2Winner = None, game2Loser = None,
             gameResults = [], played = []\<rparr>"
  from assms have m: "matchLoop eng wb bb (Suc 0) ?v0 = Inr r"
    by (simp add: playBotMatch_def)
  then obtain v1 where v1: "playGame eng wb bb (Suc 0) ?v0 = Continue v1"
    and m2: "matchLoop eng wb bb 2 v1 = Inr r"
    using playGame_1_continues [of ?v0 eng wb bb]
    by (auto simp add: matchLoop_1 split: game_step.splits)
  from v1 have l1: "length (played v1) = 1" by (simp add: playGame_played)
  show ?thesis
  proof (cases "playGame eng wb bb 2 v1")
    case (Return r')
    with m2 l1 show ?thesis by (auto simp add: matchLoop_2 dest: playGame_played)
  next
    case (Continue v2)
    with l1 have l2: "length (played v2) = 2" by (auto dest: playGame_played)
    from Continue m2 have "matchLoop eng wb bb 3 v2 = Inr r" by (simp add: matchLoop_2)
    with l2 show ?thesis
      by (auto simp add: matchLoop_3 matchLoop_4 split: game_step.splits dest: playGame_played)
  next
    case (Throw x)
    with m2 show ?thesis by (simp add: matchLoop_2)
  qed
qed

lemma playMatches_games:
  "playMatches h done ms = Inr (h', rs) \<Longrightarrow>
     \<forall>r \<in> set done. 2 \<le> length (matchPlayed r) \<Longrightarrow>
     \<forall>r \<in> set rs. 2 \<le> length (matchPlayed r)"
proof (induction ms arbitrary: h "done")
  case Nil
  then show ?case by simp
next
  case (Cons m ms)
  obtain wb bb eng where m: "m = (wb, bb, eng)" by (cases m)
  from Cons.prems(1) m obtain r where r: "playBotMatch (Some eng) wb bb = Inr r"
    and rest: "playMatches (trackHeadToHead h (matchWinner r) (matchLoser r)) (done @ [r]) ms
                 = Inr (h', rs)"
    by (auto split: sum.splits)
  from two_or_three_games [OF r] Cons.prems(2)
  have "\<forall>r \<in> set (done @ [r]). 2 \<le> length (matchPlayed r)" by simp
  from Cons.IH [OF rest this] show ?case .
qed

lemma sum_list_at_least:
  "\<forall>x \<in> set xs. (k::nat) \<le> f x \<Longrightarrow> k * length xs \<le> sum_list (map f xs)"
  by (induction xs) auto

text \<open>
  C9, amended. The head-to-head entry of a pair is stored under one key, the same for
  \<open>(A, B)\<close> and \<open>(B, A)\<close>. After a tournament that ran to its end, the sum
  \<open>wins + losses\<close> of the entry is the number of matches (best-of-3 series) recorded
  under that key: \<^verbatim>\<open>trackHeadToHead\<close> is called once per match, not once per game.
  The games played in these matches are at least twice as many.
\<close>

theorem head_to_head_counts_matches:
  assumes "playMatches Map.empty [] ms = Inr (h, rs)"
  shows "h2hKey a b = h2hKey b a
     \<and> entryTotal h (h2hKey a b) = length (matchesUnder (h2hKey a b) rs)
     \<and> 2 * entryTotal h (h2hKey a b) \<le> gamesUnder (h2hKey a b) rs"
proof -
  have key: "h2hKey a b = h2hKey b a"
    by (simp add: h2hKey_def h2hNames_commute)
  from playMatches_total [OF assms, of "h2hKey a b"]
  have total: "entryTotal h (h2hKey a b) = length (matchesUnder (h2hKey a b) rs)"
    by (simp add: entryTotal_def matchesUnder_def)
  from playMatches_games [OF assms]
  have "\<forall>r \<in> set (matchesUnder (h2hKey a b) rs). 2 \<le> length (matchPlayed r)"
    by (simp add: matchesUnder_def)
  then have "2 * length (matchesUnder (h2hKey a b) rs) \<le> gamesUnder (h2hKey a b) rs"
    unfolding gamesUnder_def by (rule sum_list_at_least)
  with key total show ?thesis by simp
qed

lemma alice_bob: "h2hNames botA botB = [''alice'', ''bob'']" "h2hNames botB botA = [''alice'', ''bob'']"
  by code_simp+

lemma one_match:
  "playMatches Map.empty [] [(botA, botB, runs [Checkmate B, Checkmate W, Stalemate])] =
      Inr ([''alice-vs-bob'' \<mapsto> \<lparr>wins = 1, losses = 0\<rparr>],
           [\<lparr>matchWinner = botA, matchLoser = botB,
             matchGames = [\<lparr>winner = botB, loser = botA, reason = ByCheckmate\<rparr>,
                           \<lparr>winner = botA, loser = botB, reason = ByCheckmate\<rparr>,
                           \<lparr>winner = botA, loser = botB, reason = ByStalemate\<rparr>],
             matchPlayed = [(botA, botB), (botA, botB), (botB, botA)]\<rparr>])"
  by (simp add: match_defs matchLoop_eval runs_defs trackHeadToHead_def alice_bob)
     (simp add: botA_def botB_def)

theorem head_to_head_counts_matches_witness:
  "playMatches Map.empty [] [(botA, botB, runs [Checkmate B, Checkmate W, Stalemate])] =
      Inr ([''alice-vs-bob'' \<mapsto> \<lparr>wins = 1, losses = 0\<rparr>],
           [\<lparr>matchWinner = botA, matchLoser = botB,
             matchGames = [\<lparr>winner = botB, loser = botA, reason = ByCheckmate\<rparr>,
                           \<lparr>winner = botA, loser = botB, reason = ByCheckmate\<rparr>,
                           \<lparr>winner = botA, loser = botB, reason = ByStalemate\<rparr>],
             matchPlayed = [(botA, botB), (botA, botB), (botB, botA)]\<rparr>])
   \<and> h2hKey botB botA = ''alice-vs-bob''
   \<and> entryTotal [''alice-vs-bob'' \<mapsto> \<lparr>wins = 1, losses = 0\<rparr>] (h2hKey botB botA) = 1"
  using one_match head_to_head_counts_matches [OF one_match, of botB botA]
  by (simp add: h2hKey_def alice_bob entryTotal_def)

text \<open>
  C9, as stated, fails: in a tournament of two competitors where white wins games 1 and 2,
  two games are played between them and the entry has \<open>wins + losses = 1\<close>.
\<close>

theorem head_to_head_counts_games_counterexample:
  "\<not> isl (playMatches Map.empty [] [(botA, botB, runs [Checkmate W, Checkmate W])])
   \<and> entryTotal (fst (projr (playMatches Map.empty [] [(botA, botB, runs [Checkmate W, Checkmate W])])))
        (h2hKey botA botB) = 1
   \<and> gamesUnder (h2hKey botA botB)
        (snd (projr (playMatches Map.empty [] [(botA, botB, runs [Checkmate W, Checkmate W])]))) = 2"
  by (simp add: match_defs matchLoop_eval runs_defs reading_defs entryTotal_def
        trackHeadToHead_def h2hKey_def alice_bob gamesUnder_def matchesUnder_def)
     (simp add: botA_def botB_def)

section \<open>Properties of the game engine\<close>

lemmas mini_defs = miniChess_def miniMove_def miniTurn_def miniFen_def miniMate_def miniBook_def

lemmas engine_defs = emit_def buildState_def playerToMove_def isHumanTurn_def finishGame_def
  pushMove_def nextMoveNumber_def settle_def executeHumanMove_def executeBotMove_def
  executeSingleMove_def afterSingleMove_def backToCaller_def dropCall_def park_def

lemmas call_defs = hears_def isForHuman_def rejectedCall_def abort_def pause_def reset_def
  cleanup_def hasBot_def loadPlayers_def play_def step_def submitHumanMove_def
  humanMoveDone_def runResolved_def requestMove_def botMoveDone_def botAnswered_def
  delayElapsed_def fire_def run_def uciFrom_def uciTo_def uciPromotion_def

lemma botsLoaded_eq:
  "botsLoaded =
     \<lparr>chess = [], whiteWorker = Some 0, blackWorker = Some 1, whiteReady = True,
      blackReady = True,
      state = \<lparr>status = Idle, result = NoResult, fen = INITIAL_FEN, moves = [], currentTurn = W,
               whitePlayer = Some (botPlayer botA), blackPlayer = Some (botPlayer botB),
               lastMoveTimeMs = 0, timeLimitMs = 10000\<rparr>,
      moveDelayMs = 500, engineTimeLimitMs = 10000, abortController = None,
      stepping = False, humanMoveResolve = None,
      emitted = [\<lparr>status = Idle, result = NoResult, fen = INITIAL_FEN, moves = [], currentTurn = W,
               whitePlayer = Some (botPlayer botA), blackPlayer = Some (botPlayer botB),
               lastMoveTimeMs = 0, timeLimitMs = 10000\<rparr>],
      aborted = [], terminated = [], suspended = [], resolved = [], uncaught = 0, nextId = 2\<rparr>"
  by (simp add: botsLoaded_def loadPlayers_def newEngine_def cleanup_def abort_def hasBot_def
      botPlayer_def emit_def buildState_def mini_defs DEFAULT_TIME_LIMIT_MS_def
      DEFAULT_MOVE_DELAY_MS_def)

text \<open>
  C4. A call \<^verbatim>\<open>submitHumanMove(from, to, promotion)\<close> whose move the oracle does not
  accept in the current position (it throws, or returns null) returns false and leaves
  the engine as it was: every field of the \<^verbatim>\<open>GameState\<close>, the board and the pending
  wait. No exception leaves the call: a throwing \<^verbatim>\<open>chess.move\<close> is the case
  \<open>MoveThrows\<close>, which the \<^verbatim>\<open>catch\<close> turns into \<^verbatim>\<open>false\<close>.
\<close>

theorem illegal_human_move_rejected:
  assumes "\<not> legalMove R (chess e) from to promotion"
  shows "submitHumanMove R from to promotion e = (False, e)"
  using assms
  by (simp add: legalMove_def submitHumanMove_def split: move_outcome.splits)

theorem illegal_human_move_rejected_witness:
  "\<not> legalMove miniChess (chess botsLoaded) ''e2'' ''e5'' None
   \<and> submitHumanMove miniChess ''e2'' ''e5'' None botsLoaded = (False, botsLoaded)"
proof -
  have h: "\<not> legalMove miniChess (chess botsLoaded) ''e2'' ''e5'' None"
    by (simp add: legalMove_def botsLoaded_eq mini_defs)
  show ?thesis using h illegal_human_move_rejected [OF h] by simp
qed

text \<open>
  C1 fails on the code. \<^verbatim>\<open>requestMove\<close> does not listen to the abort signal, and
  \<^verbatim>\<open>executeBotMove\<close> applies the answer before \<^verbatim>\<open>gameLoop\<close> looks at
  \<^verbatim>\<open>signal.aborted\<close>. Two bots are loaded, \<^verbatim>\<open>play()\<close> requests white's move,
  then \<^verbatim>\<open>pause()\<close> and \<^verbatim>\<open>reset()\<close> are called while the request is pending: the
  engine is idle with an empty history. When the worker then answers \<^verbatim>\<open>e2e4\<close>, the
  move is played on the new board, a \<^verbatim>\<open>MoveRecord\<close> is appended and the status
  becomes \<^verbatim>\<open>running\<close>.
\<close>

theorem late_answer_after_pause_and_reset:
  "status (state (run miniChess [CallPlay, CallPause, CallReset] botsLoaded)) = Idle
   \<and> moves (state (run miniChess [CallPlay, CallPause, CallReset] botsLoaded)) = []
   \<and> map_of (suspended (run miniChess [CallPlay, CallPause, CallReset] botsLoaded)) 3
        = Some \<lparr>caller = ByPlay 2, waiting = ForBot W 0 10000\<rparr>
   \<and> status (state (run miniChess
        [CallPlay, CallPause, CallReset, BotAnswer 3 120 (MsgResult ''e2e4'')] botsLoaded)) = Running
   \<and> moves (state (run miniChess
        [CallPlay, CallPause, CallReset, BotAnswer 3 120 (MsgResult ''e2e4'')] botsLoaded))
        = [\<lparr>moveNumber = 1, san = ''e4'', uci = ''e2e4'',
            fenAfter = ''rnbqkbnr/pppppppp/8/8/4P3/8/PPPP1PPP/RNBQKBNR b KQkq - 0 1'',
            color = W, timeMs = 120\<rparr>]"
  by (simp add: botsLoaded_eq call_defs engine_defs gameLoop.simps mini_defs botPlayer_def INITIAL_FEN_def)








text \<open>
  C5, as stated, fails: \<^verbatim>\<open>submitHumanMove\<close> does not look at the status or at the
  pending wait. On an idle engine with two bots loaded, where no human move is pending,
  the call with the legal move e2-e4 returns true and appends a \<^verbatim>\<open>MoveRecord\<close>.
\<close>

theorem human_move_without_wait_counterexample:
  "status (state botsLoaded) = Idle
   \<and> humanMoveResolve botsLoaded = None
   \<and> suspended botsLoaded = []
   \<and> fst (submitHumanMove miniChess ''e2'' ''e4'' None botsLoaded) = True
   \<and> moves (state (snd (submitHumanMove miniChess ''e2'' ''e4'' None botsLoaded)))
       = [\<lparr>moveNumber = 1, san = ''e4'', uci = ''e2e4'',
           fenAfter = ''rnbqkbnr/pppppppp/8/8/4P3/8/PPPP1PPP/RNBQKBNR b KQkq - 0 1'',
           color = W, timeMs = 0\<rparr>]
   \<and> state (snd (submitHumanMove miniChess ''e2'' ''e4'' None botsLoaded)) \<noteq> state botsLoaded"
  by (simp add: botsLoaded_eq submitHumanMove_def pushMove_def nextMoveNumber_def mini_defs)

text \<open>
  C5, amended. Whenever the move is legal in the current position, whatever the status
  and whether or not a human move is pending, \<^verbatim>\<open>submitHumanMove\<close> returns true, plays
  the move on the board, appends a \<^verbatim>\<open>MoveRecord\<close> with 0 elapsed time, leaves the
  status as it is, and resolves the pending wait when there is one.
\<close>

theorem legal_human_move_applied:
  assumes "chessMove R (chess e) from to promotion = Moved sn c p"
  shows "fst (submitHumanMove R from to promotion e) = True
     \<and> moves (state (snd (submitHumanMove R from to promotion e)))
         = moves (state e) @
           [\<lparr>moveNumber = (length (moves (state e)) + 1) div 2 + 1, san = sn,
             uci = from @ to @ (case promotion of None \<Rightarrow> [] | Some pr \<Rightarrow> pr),
             fenAfter = chessFen R p, color = c, timeMs = 0\<rparr>]
     \<and> lastMoveTimeMs (state (snd (submitHumanMove R from to promotion e))) = 0
     \<and> status (state (snd (submitHumanMove R from to promotion e))) = status (state e)
     \<and> chess (snd (submitHumanMove R from to promotion e)) = p
     \<and> humanMoveResolve (snd (submitHumanMove R from to promotion e)) = None
     \<and> resolved (snd (submitHumanMove R from to promotion e))
         = resolved e @ (case humanMoveResolve e of None \<Rightarrow> [] | Some tid \<Rightarrow> [tid])"
  using assms
  by (simp add: submitHumanMove_def pushMove_def nextMoveNumber_def Let_def split: option.splits)

lemma humanLoaded_eq:
  "humanLoaded =
     \<lparr>chess = [], whiteWorker = None, blackWorker = Some 0, whiteReady = False,
      blackReady = True,
      state = \<lparr>status = Idle, result = NoResult, fen = INITIAL_FEN, moves = [], currentTurn = W,
               whitePlayer = Some HUMAN_PLAYER, blackPlayer = Some (botPlayer botB),
               lastMoveTimeMs = 0, timeLimitMs = 10000\<rparr>,
      moveDelayMs = 500, engineTimeLimitMs = 10000, abortController = None,
      stepping = False, humanMoveResolve = None,
      emitted = [\<lparr>status = Idle, result = NoResult, fen = INITIAL_FEN, moves = [], currentTurn = W,
               whitePlayer = Some HUMAN_PLAYER, blackPlayer = Some (botPlayer botB),
               lastMoveTimeMs = 0, timeLimitMs = 10000\<rparr>],
      aborted = [], terminated = [], suspended = [], resolved = [], uncaught = 0, nextId = 1\<rparr>"
  by (simp add: humanLoaded_def loadPlayers_def newEngine_def cleanup_def abort_def hasBot_def
      botPlayer_def HUMAN_PLAYER_def emit_def buildState_def mini_defs DEFAULT_TIME_LIMIT_MS_def
      DEFAULT_MOVE_DELAY_MS_def)

lemma humanWaiting_eq:
  "run miniChess [CallPlay] humanLoaded =
     humanLoaded\<lparr>abortController := Some 1, nextId := 3, humanMoveResolve := Some 2,
       state := (state humanLoaded)\<lparr>status := WaitingHuman\<rparr>,
       emitted := emitted humanLoaded
          @ [(state humanLoaded)\<lparr>status := WaitingHuman\<rparr>, (state humanLoaded)\<lparr>status := WaitingHuman\<rparr>],
       suspended := [(2, \<lparr>caller = ByPlay 1, waiting = ForHuman (Some 1)\<rparr>)]\<rparr>"
  by (simp add: humanLoaded_eq call_defs engine_defs gameLoop.simps mini_defs botPlayer_def
      HUMAN_PLAYER_def INITIAL_FEN_def)

theorem legal_human_move_applied_witness:
  "chessMove miniChess (chess (run miniChess [CallPlay] humanLoaded)) ''e2'' ''e4'' None
      = Moved ''e4'' W [''e2e4'']
   \<and> status (state (run miniChess [CallPlay] humanLoaded)) = WaitingHuman
   \<and> humanMoveResolve (run miniChess [CallPlay] humanLoaded) = Some 2
   \<and> fst (submitHumanMove miniChess ''e2'' ''e4'' None (run miniChess [CallPlay] humanLoaded)) = True
   \<and> moves (state (snd (submitHumanMove miniChess ''e2'' ''e4'' None
         (run miniChess [CallPlay] humanLoaded))))
       = [\<lparr>moveNumber = 1, san = ''e4'', uci = ''e2e4'',
           fenAfter = ''rnbqkbnr/pppppppp/8/8/4P3/8/PPPP1PPP/RNBQKBNR b KQkq - 0 1'',
           color = W, timeMs = 0\<rparr>]
   \<and> resolved (snd (submitHumanMove miniChess ''e2'' ''e4'' None
         (run miniChess [CallPlay] humanLoaded))) = [2]"
proof -
  have h: "chessMove miniChess (chess (run miniChess [CallPlay] humanLoaded)) ''e2'' ''e4'' None
      = Moved ''e4'' W [''e2e4'']"
    unfolding humanWaiting_eq by (simp add: humanLoaded_eq mini_defs)
  show ?thesis
    using h legal_human_move_applied [OF h]
    unfolding humanWaiting_eq by (simp add: humanLoaded_eq mini_defs)
qed

subsection \<open>Games under \<^verbatim>\<open>play()\<close>\<close>

text \<open>
  What holds of an engine while a game started from \<open>e0\<close> is played by the call
  \<open>tid\<close> of \<^verbatim>\<open>play()\<close> under the signal \<open>sid\<close>: \<open>base\<close> between two awaits,
  \<open>playing\<close> while the call is suspended on \<open>w\<close>, \<open>finishedOnce\<close> when the game has
  ended in position \<open>p\<close>. Since \<open>e0\<close>, no state with status \<^verbatim>\<open>finished\<close> is emitted
  before the last one.
\<close>

definition awaits :: "nat \<Rightarrow> waiting \<Rightarrow> 'p GameEngine \<Rightarrow> bool" where
  "awaits tid w e =
     (case w of
        ForHuman sg \<Rightarrow> humanMoveResolve e = Some tid
      | ForBot turn wk limit \<Rightarrow> limit = engineTimeLimitMs e \<and> wk \<notin> set (terminated e)
      | ForDelay \<Rightarrow> True
      | Forever \<Rightarrow> False)"








lemma dropCall_single [simp]: "dropCall tid [(tid, s)] = []" "dropCall tid [] = []"
  by (simp_all add: dropCall_def)

lemma seated_emit [simp]: "seated (emit R st res e) c = seated e c"
  by (simp add: seated_def emit_def buildState_def cong: option.case_cong)

lemma seated_frame [simp]:
  "seated (e\<lparr>humanMoveResolve := h\<rparr>) c = seated e c"
  "seated (e\<lparr>suspended := ss\<rparr>) c = seated e c"
  "seated (e\<lparr>resolved := rs\<rparr>) c = seated e c"
  "seated (pushMove r t e) c = seated e c"
  "seated (e\<lparr>chess := p\<rparr>) c = seated e c"
  by (simp_all add: seated_def pushMove_def cong: option.case_cong)


lemma pushMove_frame [simp]:
  "chess (pushMove r t e) = chess e"
  "suspended (pushMove r t e) = suspended e"
  "aborted (pushMove r t e) = aborted e"
  "stepping (pushMove r t e) = stepping e"
  "resolved (pushMove r t e) = resolved e"
  "moveDelayMs (pushMove r t e) = moveDelayMs e"
  "engineTimeLimitMs (pushMove r t e) = engineTimeLimitMs e"
  "terminated (pushMove r t e) = terminated e"
  "humanMoveResolve (pushMove r t e) = humanMoveResolve e"
  "uncaught (pushMove r t e) = uncaught e"
  "emitted (pushMove r t e) = emitted e"
  "status (state (pushMove r t e)) = status (state e)"
  by (simp_all add: pushMove_def)



lemma emit_frame [simp]:
  "chess (emit R st res e) = chess e"
  "suspended (emit R st res e) = suspended e"
  "aborted (emit R st res e) = aborted e"
  "stepping (emit R st res e) = stepping e"
  "moveDelayMs (emit R st res e) = moveDelayMs e"
  "engineTimeLimitMs (emit R st res e) = engineTimeLimitMs e"
  "terminated (emit R st res e) = terminated e"
  "humanMoveResolve (emit R st res e) = humanMoveResolve e"
  "uncaught (emit R st res e) = uncaught e"
  "status (state (emit R st res e)) = st"
  "result (state (emit R st res e)) = res"
  "resolved (emit R st res e) = resolved e"
  "emitted (emit R st res e) = emitted e @ [state (emit R st res e)]"
  by (simp_all add: emit_def buildState_def)

lemma isHumanTurn_emit [simp]: "isHumanTurn R (emit R st res e) = isHumanTurn R e"
  by (simp add: isHumanTurn_def playerToMove_def emit_def buildState_def)



lemma awaits_suspended [simp]: "awaits tid w (e\<lparr>suspended := ss\<rparr>) = awaits tid w e"
  by (simp add: awaits_def split: waiting.splits)







lemma playMoves_simps [simp]:
  "playMoves R tid [] e = e"
  "playMoves R tid (m # ms) e = playMoves R tid ms (deliverMove R tid m e)"
  by (simp_all add: playMoves_def)










end
